theory Spec2Isabelle
  imports Complex_Main
begin

section \<open>JavaScript string primitives used by the sources\<close>

text \<open>
  Strings are lists of characters. An array index outside the array and a missing
  object field are \<open>undefined\<close> in JavaScript; they are \<open>None\<close> here, and calling a
  method on \<open>undefined\<close> raises a \<open>TypeError\<close>.
\<close>

datatype js_error = TypeError

text \<open>\<open>s.split(c)\<close> for a one-character separator: never empty, \<open>''''.split(c)\<close> is \<open>['''']\<close>.\<close>

fun split_chr :: "char \<Rightarrow> string \<Rightarrow> string list" where
  "split_chr c [] = [[]]"
| "split_chr c (x # xs) =
     (if x = c then [] # split_chr c xs
      else (case split_chr c xs of [] \<Rightarrow> [[x]] | y # ys \<Rightarrow> (x # y) # ys))"

text \<open>\<open>xs[i]\<close>: \<open>undefined\<close> out of range.\<close>

definition nth_opt :: "'a list \<Rightarrow> nat \<Rightarrow> 'a option" where
  "nth_opt xs i = (if i < length xs then Some (xs ! i) else None)"

text \<open>A value inside a template literal: \<open>`${undefined}`\<close> is the text \<open>undefined\<close>.\<close>

definition template :: "string option \<Rightarrow> string" where
  "template v = (case v of None \<Rightarrow> ''undefined'' | Some s \<Rightarrow> s)"

fun starts_with :: "string \<Rightarrow> string \<Rightarrow> bool" where
  "starts_with s [] = True"
| "starts_with [] (p # ps) = False"
| "starts_with (x # xs) (p # ps) = (x = p \<and> starts_with xs ps)"

text \<open>\<open>s.includes(sub)\<close>.\<close>

fun includes_str :: "string \<Rightarrow> string \<Rightarrow> bool" where
  "includes_str [] sub = (sub = [])"
| "includes_str (x # xs) sub = (starts_with (x # xs) sub \<or> includes_str xs sub)"

text \<open>
  The replacement text of \<open>String.prototype.replace\<close> for a string pattern: \<open>$$\<close> is a
  dollar sign, \<open>$&\<close> the matched text, \<open>$`\<close> the text before the match and \<open>$'\<close> the
  text after it; a string pattern has no groups, so every other \<open>$\<close> stands for itself.
\<close>

fun expand_replacement :: "string \<Rightarrow> string \<Rightarrow> string \<Rightarrow> string \<Rightarrow> string" where
  "expand_replacement matched before rest [] = []"
| "expand_replacement matched before rest [x] = [x]"
| "expand_replacement matched before rest (x # y # zs) =
     (if x = CHR ''$'' \<and> y = CHR ''$'' then CHR ''$'' # expand_replacement matched before rest zs
      else if x = CHR ''$'' \<and> y = CHR ''&'' then matched @ expand_replacement matched before rest zs
      else if x = CHR ''$'' \<and> y = CHR 0x60 then before @ expand_replacement matched before rest zs
      else if x = CHR ''$'' \<and> y = CHR 0x27 then rest @ expand_replacement matched before rest zs
      else x # expand_replacement matched before rest (y # zs))"

text \<open>
  \<open>s.replace(c, r)\<close> for a one-character pattern: the first occurrence only, replaced
  by the expansion of \<open>r\<close>; \<open>s\<close> itself when the character does not occur.
\<close>

definition replace_chr :: "char \<Rightarrow> string \<Rightarrow> string \<Rightarrow> string" where
  "replace_chr c r s =
     (let before = takeWhile (\<lambda>x. x \<noteq> c) s;
          found = dropWhile (\<lambda>x. x \<noteq> c) s
      in case found of
           [] \<Rightarrow> s
         | x # rest \<Rightarrow> before @ expand_replacement [c] before rest r @ rest)"

text \<open>\<open>s.replaceAll(c, '')\<close>: every occurrence of the character is dropped.\<close>

definition replaceAll_chr :: "char \<Rightarrow> string \<Rightarrow> string" where
  "replaceAll_chr c s = filter (\<lambda>x. x \<noteq> c) s"

section \<open>Progress extraction of \<open>update\<close> (games.ts, lines 196-223)\<close>

record InstallProgress =
  bytes :: string
  eta :: "string option"
  percent :: "string option"

text \<open>
  What one run of a \<open>data\<close> listener leaves behind: the shared \<open>progress\<close> object as
  mutated so far, whether the listener registered the \<open>stdout\<close> listener of the
  verification phase, and the exception it raised, if any.
\<close>

record listener_result =
  progress :: InstallProgress
  stdout_listener :: bool
  raised :: "js_error option"

text \<open>
  The \<open>stdout\<close> listener of the verification phase (lines 206-211). \<open>bytes\<close> is
  assigned before \<open>percent\<close>, so it is already written when the second line raises.
\<close>

definition verifying_listener :: "string \<Rightarrow> InstallProgress \<Rightarrow> listener_result" where
  "verifying_listener data p =
     (let p1 = p\<lparr>bytes := template (nth_opt (split_chr CHR '' '' data) 2) @ ''MiB''\<rparr> in
      case nth_opt (split_chr CHR '' '' data) 3 of
        None \<Rightarrow> \<lparr>progress = p1, stdout_listener = False, raised = Some TypeError\<rparr>
      | Some field \<Rightarrow>
          (case nth_opt (split_chr CHR '')'' field) 0 of
             None \<Rightarrow> \<lparr>progress = p1, stdout_listener = False, raised = Some TypeError\<rparr>
           | Some head \<Rightarrow>
               \<lparr>progress = p1\<lparr>percent := Some (replace_chr CHR ''('' [] head),
                                 eta := Some ''verifying''\<rparr>,
                stdout_listener = False, raised = None\<rparr>))"

text \<open>
  The \<open>stderr\<close> listener registered by the \<open>requestUpdateProgress\<close> handler
  (lines 202-220), run on one chunk \<open>data\<close>; \<open>this_appName\<close> is the game's name and
  \<open>appName\<close> the name the request carries.
\<close>

definition stderr_listener ::
    "string \<Rightarrow> string \<Rightarrow> string \<Rightarrow> InstallProgress \<Rightarrow> listener_result" where
  "stderr_listener this_appName appName data p =
     (let isVerifying = includes_str data ''Game needs to be verified'' in
      if appName = this_appName then
        (case nth_opt (split_chr (CHR 0x0A) data) 0 of
           None \<Rightarrow> \<lparr>progress = p, stdout_listener = isVerifying, raised = Some TypeError\<rparr>
         | Some line0 \<Rightarrow>
            (let percentProgress = split_chr CHR '' '' line0 in
             case nth_opt (split_chr (CHR 0x0A) data) 1 of
               None \<Rightarrow> \<lparr>progress = p, stdout_listener = isVerifying, raised = Some TypeError\<rparr>
             | Some line1 \<Rightarrow>
                (let downloadProgress = split_chr CHR '' '' line1 in
                 \<lparr>progress = p\<lparr>
                    bytes := (case nth_opt downloadProgress 5 of
                                None \<Rightarrow> ''0.00''
                              | Some s \<Rightarrow> if s = [] then ''0.00'' else s) @ ''MiB'',
                    percent := nth_opt percentProgress 4,
                    eta := nth_opt percentProgress 10\<rparr>,
                  stdout_listener = isVerifying, raised = None\<rparr>)))
      else \<lparr>progress = p, stdout_listener = False, raised = None\<rparr>)"

text \<open>The \<open>progress\<close> object \<open>update\<close> starts with (lines 196-200).\<close>

definition initial_progress :: InstallProgress where
  "initial_progress = \<lparr>bytes = ''0.00MiB'', eta = Some ''00:00:00'', percent = Some ''0.00%''\<rparr>"

text \<open>\<open>xs.slice(-n)\<close>: the last \<open>n\<close> elements (all of them when there are fewer).\<close>

definition slice_from_end :: "nat \<Rightarrow> 'a list \<Rightarrow> 'a list" where
  "slice_from_end n xs = drop (length xs - n) xs"

text \<open>\<open>xs.join(sep)\<close>.\<close>

fun join :: "string \<Rightarrow> string list \<Rightarrow> string" where
  "join sep [] = []"
| "join sep [x] = x"
| "join sep (x # y # ys) = x @ sep @ join sep (y # ys)"

text \<open>
  A value that is a number or is missing: \<open>undefined\<close>, \<open>NaN\<close>, the two infinities, or
  a finite number, given by the real it denotes (\<open>Num 0\<close> is both zeros).
\<close>

datatype js_value = Undefined | NaN | PosInfinity | NegInfinity | Num real

text \<open>\<open>v === 0\<close>: true of the two zeros only.\<close>

definition strict_equals_zero :: "js_value \<Rightarrow> bool" where
  "strict_equals_zero v = (v = Num 0)"

text \<open>The truthiness of \<open>v\<close>: \<open>undefined\<close>, \<open>NaN\<close> and the zeros are falsy.\<close>

definition truthy :: "js_value \<Rightarrow> bool" where
  "truthy v =
     (case v of
        Undefined \<Rightarrow> False
      | NaN \<Rightarrow> False
      | PosInfinity \<Rightarrow> True
      | NegInfinity \<Rightarrow> True
      | Num x \<Rightarrow> x \<noteq> 0)"

text \<open>
  \<open>`${v}`\<close>: the text of the value inside a template literal. The text of a finite
  number is the engine's (\<open>Number.prototype.toString\<close>), a parameter.
\<close>

definition template_number :: "(real \<Rightarrow> string) \<Rightarrow> js_value \<Rightarrow> string" where
  "template_number number_text v =
     (case v of
        Undefined \<Rightarrow> ''undefined''
      | NaN \<Rightarrow> ''NaN''
      | PosInfinity \<Rightarrow> ''Infinity''
      | NegInfinity \<Rightarrow> ''-Infinity''
      | Num x \<Rightarrow> number_text x)"

text \<open>The decimal digits of a natural number.\<close>

definition digit_char :: "nat \<Rightarrow> char" where
  "digit_char d = ''0123456789'' ! d"

fun show_nat :: "nat \<Rightarrow> string" where
  "show_nat n =
     (if n < 10 then [digit_char n]
      else show_nat (n div 10) @ [digit_char (n mod 10)])"

declare show_nat.simps [simp del]

abbreviation (input) apostrophe :: char where
  "apostrophe \<equiv> CHR 0x27"

abbreviation (input) dquote :: char where
  "dquote \<equiv> CHR 0x22"

section \<open>The game object, the library and the processes it runs (games.ts)\<close>

text \<open>The values \<open>this.state.status\<close> takes in games.ts.\<close>

datatype status =
  Done | Installing | Updating | Uninstalling | Repairing | Moving | Launching | Playing

text \<open>
  The game object's \<open>appName\<close> and \<open>state.status\<close>, together with the two records
  of the library that the operations write: the persistent installed-state of each
  entity and its persisted install path.
\<close>

record world =
  appName :: string
  status :: status
  installed :: "string \<Rightarrow> bool"
  install_path :: "string \<Rightarrow> string"

text \<open>
  Modelled from the spec: \<open>LegendaryLibrary.installState\<close> (library.ts) is missing from
  the repository's files at hand. It writes the persistent installed-state of the
  entity (spec 4.4, "mark persistent installed-state true").
\<close>

definition installState :: "string \<Rightarrow> bool \<Rightarrow> world \<Rightarrow> world" where
  "installState name state w = w\<lparr>installed := (installed w)(name := state)\<rparr>"

text \<open>
  Modelled from the spec: \<open>LegendaryLibrary.changeGameInstallPath\<close> (library.ts) is
  missing as well. It writes the persisted install-path record of the entity (spec
  4.4, Move), the record \<open>getGameInfo\<close> reads back as \<open>info.install.install_path\<close>.
\<close>

definition changeGameInstallPath :: "string \<Rightarrow> string \<Rightarrow> world \<Rightarrow> world" where
  "changeGameInstallPath name path w = w\<lparr>install_path := (install_path w)(name := path)\<rparr>"

text \<open>How a child process ends (spec 4.2, \<open>ExitOutcome\<close>), and what it printed.\<close>

datatype exit_outcome = ExitCode int | KilledByCancellation

record child_exit =
  outcome :: exit_outcome
  stdout :: string
  stderr :: string

text \<open>
  What a promise is rejected with: the error of a command that did not exit with code
  zero, or the error of an HTTP request.
\<close>

datatype failure = ExecError exit_outcome string string | HttpError string

text \<open>
  Modelled from the spec: \<open>execAsync\<close> (utils.ts) is missing from the repository's
  files at hand. It runs a command line in a shell and waits for it; the promise is
  fulfilled with the output when the command exits with code zero and rejected
  otherwise (spec 4.4: a zero exit is a success, any other exit a failure). \<open>run\<close> is the
  environment: what each command line does when it is run. \<open>Inl\<close> is a rejection.
\<close>

definition execAsync ::
    "(string \<Rightarrow> child_exit) \<Rightarrow> string \<Rightarrow> failure + (string \<times> string)" where
  "execAsync run command =
     (let r = run command in
      if outcome r = ExitCode 0 then Inr (stdout r, stderr r)
      else Inl (ExecError (outcome r) (stdout r) (stderr r)))"

text \<open>
  The values of constants.ts and of the global settings the operations read, and the
  text the engine prints for a finite number. \<open>maxWorkers\<close> is whatever the settings
  hold under that key.
\<close>

record constants =
  legendaryBin :: string
  heroicGamesConfigPath :: string
  home :: string
  isWindows :: bool
  platform :: string
  maxWorkers :: js_value
  number_text :: "real \<Rightarrow> string"
  discordRPC :: bool
  online :: bool
  language :: string
  title :: string

text \<open>
  What an operation does to the outside, in the order it does it. The desktop
  shortcut functions are started and never awaited, so only their start is recorded.
\<close>

datatype effect =
    LogInfo "string list"
  | LogWarning "string list"
  | LogError failure
  | InstallState string bool
  | ChangeGameInstallPath string string
  | Exec string
  | Spawn string "string list"
  | HandleRequestUpdateProgress
  | AddDesktopShortcut
  | RemoveDesktopShortcut
  | ErrorHandler failure string
  | UpdatePresence string string
  | DiscordDisconnect
  | DxvkInstall string
  | ShowMainWindow
  | IsOnline
  | HttpPost string string
  | HttpGet string

text \<open>
  One call of an operation: the value its promise settles with (\<open>Inl\<close> a rejection),
  the world it leaves and the effects it had.
\<close>

record 'r run =
  result :: "failure + 'r"
  after :: world
  effects :: "effect list"

subsection \<open>\<open>moveInstall\<close> (lines 166-179)\<close>

definition amended_path :: "string \<Rightarrow> string \<Rightarrow> string" where
  "amended_path newInstallPath installpath =
     newInstallPath @ ''/'' @
       template (nth_opt (slice_from_end 1 (split_chr CHR ''/'' installpath)) 0)"

definition move_command :: "string \<Rightarrow> string \<Rightarrow> string" where
  "move_command installpath newInstallPath =
     ''mv -f '' @ installpath @ '' '' @ [apostrophe] @ newInstallPath @ [apostrophe]"

definition moveInstall :: "(string \<Rightarrow> child_exit) \<Rightarrow> string \<Rightarrow> world \<Rightarrow> string run" where
  "moveInstall run newInstallPath w =
     (let w1 = w\<lparr>status := Moving\<rparr>;
          installpath = install_path w1 (appName w1);
          newInstallPath' = amended_path newInstallPath installpath;
          command = move_command installpath newInstallPath'
      in case execAsync run command of
           Inr v \<Rightarrow>
             \<lparr>result = Inr newInstallPath',
              after = (changeGameInstallPath (appName w1) newInstallPath' w1)\<lparr>status := Done\<rparr>,
              effects = [Exec command, ChangeGameInstallPath (appName w1) newInstallPath',
                         AddDesktopShortcut]\<rparr>
         | Inl e \<Rightarrow>
             \<lparr>result = Inr newInstallPath',
              after = w1\<lparr>status := Done\<rparr>,
              effects = [Exec command, LogError e, AddDesktopShortcut]\<rparr>)"

subsection \<open>The worker-count flag and the command lines\<close>

text \<open>\<open>install\<close>, line 323: \<open>maxWorkers === 0 ? '' : `--max-workers ${maxWorkers}`\<close>.\<close>

definition install_workers :: "(real \<Rightarrow> string) \<Rightarrow> js_value \<Rightarrow> string" where
  "install_workers text v =
     (if strict_equals_zero v then [] else ''--max-workers '' @ template_number text v)"

text \<open>\<open>update\<close>, line 190: the same test, the flag with a leading space.\<close>

definition update_workers :: "(real \<Rightarrow> string) \<Rightarrow> js_value \<Rightarrow> string" where
  "update_workers text v =
     (if strict_equals_zero v then [] else '' --max-workers '' @ template_number text v)"

text \<open>
  \<open>repair\<close>, line 369: \<open>maxWorkers ? `--max-workers ${maxWorkers}` : ''\<close>, a test of
  truthiness and not of equality with zero.
\<close>

definition repair_workers :: "(real \<Rightarrow> string) \<Rightarrow> js_value \<Rightarrow> string" where
  "repair_workers text v =
     (if truthy v then ''--max-workers '' @ template_number text v else [])"

definition logPath_of :: "constants \<Rightarrow> string \<Rightarrow> string" where
  "logPath_of c name = [dquote] @ heroicGamesConfigPath c @ name @ ''.log'' @ [dquote]"

definition writeLog_of :: "constants \<Rightarrow> string \<Rightarrow> string" where
  "writeLog_of c name =
     (if isWindows c then ''2>&1 > '' @ logPath_of c name else ''|& tee '' @ logPath_of c name)"

definition install_command :: "constants \<Rightarrow> string \<Rightarrow> string \<Rightarrow> string" where
  "install_command c name path =
     legendaryBin c @ '' install '' @ name @ '' --base-path '' @ path @ '' '' @
       install_workers (number_text c) (maxWorkers c) @ '' -y '' @ writeLog_of c name"

definition repair_command :: "constants \<Rightarrow> string \<Rightarrow> string" where
  "repair_command c name =
     legendaryBin c @ '' repair '' @ name @ '' '' @ repair_workers (number_text c) (maxWorkers c) @
       '' -y '' @ writeLog_of c name"

definition update_command :: "constants \<Rightarrow> string \<Rightarrow> string list" where
  "update_command c name =
     split_chr CHR '' '' (''update '' @ name @ update_workers (number_text c) (maxWorkers c) @ '' -y'')"

definition uninstall_command :: "constants \<Rightarrow> string \<Rightarrow> string" where
  "uninstall_command c name = legendaryBin c @ '' uninstall '' @ name @ '' -y''"

subsection \<open>\<open>install\<close> (lines 320-346)\<close>

text \<open>
  \<open>install\<close> resolves with the output of the command, or with what \<open>errorHandler\<close>
  makes of the error and the log path. \<open>errorHandler\<close> (utils.ts) is missing too and
  is a parameter; \<open>Inl\<close> is its rejection.
\<close>

datatype 'h install_result = ExecValue "string \<times> string" | HandlerValue 'h

definition install ::
    "constants \<Rightarrow> (string \<Rightarrow> child_exit) \<Rightarrow> (failure \<Rightarrow> string \<Rightarrow> failure + 'h) \<Rightarrow>
     string \<Rightarrow> world \<Rightarrow> 'h install_result run" where
  "install c run errorHandler path w =
     (let w1 = w\<lparr>status := Installing\<rparr>;
          logPath = logPath_of c (appName w1);
          command = install_command c (appName w1) path;
          started = [LogInfo [''Installing '' @ appName w1 @ '' with:'', command],
                     InstallState (appName w1) True, Exec command];
          w2 = installState (appName w1) True w1
      in case execAsync run command of
           Inr v \<Rightarrow>
             \<lparr>result = Inr (ExecValue v),
              after = w2\<lparr>status := Done\<rparr>,
              effects = started @ [AddDesktopShortcut]\<rparr>
         | Inl error \<Rightarrow>
             (let w3 = installState (appName w1) False w2;
                  handled = started @ [InstallState (appName w1) False, ErrorHandler error logPath]
              in case errorHandler error logPath of
                   Inr v \<Rightarrow>
                     \<lparr>result = Inr (HandlerValue v), after = w3\<lparr>status := Done\<rparr>,
                      effects = handled\<rparr>
                 | Inl e \<Rightarrow> \<lparr>result = Inl e, after = w3, effects = handled\<rparr>))"

subsection \<open>\<open>uninstall\<close> (lines 348-358)\<close>

definition uninstall ::
    "constants \<Rightarrow> (string \<Rightarrow> child_exit) \<Rightarrow> world \<Rightarrow> (string \<times> string) run" where
  "uninstall c run w =
     (let w1 = w\<lparr>status := Uninstalling\<rparr>;
          command = uninstall_command c (appName w1);
          started = [LogInfo [''Uninstalling '' @ appName w1 @ '' with:'', command],
                     InstallState (appName w1) False, Exec command];
          w2 = installState (appName w1) False w1
      in case execAsync run command of
           Inr v \<Rightarrow>
             \<lparr>result = Inr v, after = w2\<lparr>status := Done\<rparr>,
              effects = started @ [RemoveDesktopShortcut]\<rparr>
         | Inl e \<Rightarrow> \<lparr>result = Inl e, after = w2, effects = started\<rparr>)"

subsection \<open>\<open>repair\<close> (lines 366-381)\<close>

definition repair ::
    "constants \<Rightarrow> (string \<Rightarrow> child_exit) \<Rightarrow> world \<Rightarrow> (string \<times> string) run" where
  "repair c run w =
     (let w1 = w\<lparr>status := Repairing\<rparr>;
          command = repair_command c (appName w1);
          started = [LogInfo [''Repairing '' @ appName w1 @ '' with:'', command], Exec command]
      in case execAsync run command of
           Inr v \<Rightarrow> \<lparr>result = Inr v, after = w1\<lparr>status := Done\<rparr>, effects = started\<rparr>
         | Inl e \<Rightarrow> \<lparr>result = Inl e, after = w1, effects = started\<rparr>)"

subsection \<open>\<open>update\<close> (lines 187-229)\<close>

text \<open>
  \<open>update\<close> spawns the tool, registers the \<open>requestUpdateProgress\<close> handler and
  resolves with \<open>'game updated'\<close> when the child exits, whatever its exit code. It
  reads neither \<open>isOnline\<close> nor the exit code, and it does not write the status again.
\<close>

definition update :: "constants \<Rightarrow> world \<Rightarrow> string run" where
  "update c w =
     (let w1 = w\<lparr>status := Updating\<rparr>
      in \<lparr>result = Inr ''game updated'',
          after = w1,
          effects = [Spawn (legendaryBin c) (update_command c (appName w1)),
                     HandleRequestUpdateProgress, LogInfo [''child exiting'']]\<rparr>)"

subsection \<open>\<open>launch\<close> (lines 412-552)\<close>

text \<open>The game's settings \<open>launch\<close> reads; \<open>None\<close> is a setting that is not there.\<close>

record game_settings =
  winePrefix :: string
  wineVersion_bin :: string
  wineVersion_name :: string
  otherOptions :: "string option"
  useGameMode :: bool
  showFps :: bool
  nvidiaPrime :: bool
  launcherArgs :: "string option"
  showMangohud :: bool
  audioFix :: bool
  autoInstallDxvk :: bool
  offlineMode :: bool

definition os_name :: "string \<Rightarrow> string" where
  "os_name p =
     (if p = ''linux'' then ''Linux''
      else if p = ''win32'' then ''Windows''
      else if p = ''darwin'' then ''MacOS''
      else ''Unknown OS'')"

definition presence :: "constants \<Rightarrow> effect list" where
  "presence c =
     (if discordRPC c
      then [UpdatePresence (title c) (''via Heroic on '' @ os_name (platform c))]
      else [])"

definition stop_presence :: "effect list" where
  "stop_presence =
     [LogInfo [''Stopping Discord Rich Presence if running...''], DiscordDisconnect,
      LogInfo [''Stopped Discord Rich Presence.'']]"

definition runOffline_of :: "game_settings \<Rightarrow> string" where
  "runOffline_of s = (if offlineMode s then ''--offline'' else [])"

text \<open>\<open>launcherArgs = ''\<close> in the destructuring: the default for a missing setting.\<close>

definition launcherArgs_of :: "game_settings \<Rightarrow> string" where
  "launcherArgs_of s = (case launcherArgs s of None \<Rightarrow> [] | Some a \<Rightarrow> a)"

definition isProton_of :: "game_settings \<Rightarrow> bool" where
  "isProton_of s =
     (includes_str (wineVersion_name s) ''Proton'' \<or> includes_str (wineVersion_name s) ''Steam'')"

text \<open>\<open>winePrefix.replace('~', home)\<close>: the first tilde, with \<open>home\<close> as replacement text.\<close>

definition fixedWinePrefix_of :: "constants \<Rightarrow> game_settings \<Rightarrow> string" where
  "fixedWinePrefix_of c s = replace_chr CHR ''~'' (home c) (winePrefix s)"

definition prefix_of :: "constants \<Rightarrow> game_settings \<Rightarrow> string" where
  "prefix_of c s =
     (if isProton_of s then []
      else ''--wine-prefix '' @ [apostrophe] @
             replaceAll_chr apostrophe (fixedWinePrefix_of c s) @ [apostrophe])"

text \<open>\<open>Object.values(options).join(' ')\<close>, the keys in the order they are written.\<close>

definition envVars_of :: "constants \<Rightarrow> game_settings \<Rightarrow> string" where
  "envVars_of c s =
     join '' ''
       [if audioFix s then ''PULSE_LATENCY_MSEC=60'' else [],
        if showFps s then ''DXVK_HUD=fps'' else [],
        (case otherOptions s of None \<Rightarrow> [] | Some other \<Rightarrow> other),
        if nvidiaPrime s
          then ''__NV_PRIME_RENDER_OFFLOAD=1 __GLX_VENDOR_LIBRARY_NAME=nvidia'' else [],
        if isProton_of s
          then ''STEAM_COMPAT_CLIENT_INSTALL_PATH='' @ home c @
               ''/.steam/steam STEAM_COMPAT_DATA_PATH='' @ [apostrophe] @
               replace_chr CHR ''~'' (home c) (replaceAll_chr apostrophe (winePrefix s)) @
               [apostrophe]
          else [],
        if showMangohud s then ''MANGOHUD=1'' else []]"

definition wineCommand_of :: "game_settings \<Rightarrow> string" where
  "wineCommand_of s =
     (if wineVersion_name s \<noteq> ''Wine Default''
      then (if isProton_of s
            then ''--no-wine --wrapper '' @ [dquote] @ wineVersion_bin s @ '' run'' @ [dquote]
            else ''--wine '' @ wineVersion_bin s)
      else ''--wine '' @ wineVersion_bin s)"

text \<open>
  \<open>which gamemoderun\<close>: the first line of its output, or nothing and a warning when
  it fails. \<open>useGameMode && gameMode ? gameMode : ''\<close> then drops an empty line too.
\<close>

definition gameMode_of :: "(string \<Rightarrow> child_exit) \<Rightarrow> string option" where
  "gameMode_of run =
     (case execAsync run ''which gamemoderun'' of
        Inr (out, err) \<Rightarrow> nth_opt (split_chr (CHR 0x0A) out) 0
      | Inl e \<Rightarrow> None)"

definition runWithGameMode_of :: "game_settings \<Rightarrow> (string \<Rightarrow> child_exit) \<Rightarrow> string" where
  "runWithGameMode_of s run =
     (case gameMode_of run of
        None \<Rightarrow> []
      | Some gameMode \<Rightarrow> if useGameMode s \<and> gameMode \<noteq> [] then gameMode else [])"

definition launch_command ::
    "constants \<Rightarrow> game_settings \<Rightarrow> (string \<Rightarrow> child_exit) \<Rightarrow> string \<Rightarrow> string" where
  "launch_command c s run name =
     (if isWindows c
      then legendaryBin c @ '' launch '' @ name @ '' '' @ runOffline_of s @ '' '' @
             launcherArgs_of s
      else envVars_of c s @ '' '' @ runWithGameMode_of s run @ '' '' @ legendaryBin c @
             '' launch '' @ name @ '' '' @ runOffline_of s @ '' '' @ wineCommand_of s @
             '' '' @ prefix_of c s @ '' '' @ launcherArgs_of s)"

text \<open>
  The steps of the non-Windows path before the game is started: the Proton warning,
  the creation of a missing Proton prefix (awaited: its failure rejects \<open>launch\<close>), the
  DXVK installation (\<open>DXVK.install\<close> belongs to another module; only its call is
  recorded) and the search for \<open>gamemoderun\<close>.
\<close>

definition mkdir_command :: "constants \<Rightarrow> game_settings \<Rightarrow> string" where
  "mkdir_command c s = ''mkdir '' @ [apostrophe] @ fixedWinePrefix_of c s @ [apostrophe] @ '' -p''"

definition proton_warning :: "game_settings \<Rightarrow> effect list" where
  "proton_warning s =
     (if isProton_of s
      then [LogWarning
              [[CHR 0x0A] @ '' You are using Proton, this can lead to some bugs,'' @ [CHR 0x0A] @
               ''              please do not open issues with bugs related with games'',
               wineVersion_name s]]
      else [])"

definition gamemode_search :: "(string \<Rightarrow> child_exit) \<Rightarrow> effect list" where
  "gamemode_search run =
     Exec ''which gamemoderun'' #
       (case execAsync run ''which gamemoderun'' of
          Inr v \<Rightarrow> []
        | Inl e \<Rightarrow> [LogWarning [''GameMode not installed'']])"

definition launch ::
    "constants \<Rightarrow> game_settings \<Rightarrow> (string \<Rightarrow> bool) \<Rightarrow> (string \<Rightarrow> child_exit) \<Rightarrow> world \<Rightarrow>
     (string \<times> string) run" where
  "launch c s existsSync run w =
     (let w1 = w\<lparr>status := Launching\<rparr>;
          command = launch_command c s run (appName w1);
          logged = LogInfo [[CHR 0x0A] @ '' Launch Command:'', command]
      in if isWindows c then
           (case execAsync run command of
              Inr v \<Rightarrow>
                \<lparr>result = Inr v, after = w1,
                 effects = presence c @ [logged, Exec command] @ stop_presence\<rparr>
            | Inl e \<Rightarrow>
                \<lparr>result = Inl e, after = w1, effects = presence c @ [logged, Exec command]\<rparr>)
         else if isProton_of s \<and> \<not> existsSync (fixedWinePrefix_of c s)
                 \<and> isl (execAsync run (mkdir_command c s)) then
           \<lparr>result = Inl (projl (execAsync run (mkdir_command c s))), after = w1,
            effects = presence c @ proton_warning s @ [Exec (mkdir_command c s)]\<rparr>
         else
           (let prepared =
                  presence c @ proton_warning s @
                  (if isProton_of s \<and> \<not> existsSync (fixedWinePrefix_of c s)
                   then [Exec (mkdir_command c s)] else []) @
                  (if \<not> isProton_of s \<and> autoInstallDxvk s
                   then [DxvkInstall (winePrefix s)] else []) @
                  gamemode_search run @ [logged, Exec command]
            in case execAsync run command of
                 Inr v \<Rightarrow>
                   \<lparr>result = Inr v, after = w1\<lparr>status := Playing\<rparr>,
                    effects = prepared @ [ShowMainWindow] @ stop_presence\<rparr>
               | Inl e \<Rightarrow> \<lparr>result = Inl e, after = w1, effects = prepared\<rparr>))"

definition example_settings :: game_settings where
  "example_settings =
     \<lparr>winePrefix = ''~/.wine'', wineVersion_bin = ''/usr/bin/wine'',
      wineVersion_name = ''Wine Default'', otherOptions = None, useGameMode = False,
      showFps = False, nvidiaPrime = False, launcherArgs = None, showMangohud = False,
      audioFix = False, autoInstallDxvk = False, offlineMode = False\<rparr>"

definition every_path_exists :: "string \<Rightarrow> bool" where
  "every_path_exists path = True"

subsection \<open>\<open>getExtraInfo\<close> and \<open>getProductSlug\<close> (lines 75-138)\<close>

text \<open>
  A page of the store's answer, as far as \<open>getExtraInfo\<close> reads it: its \<open>type\<close>, its
  \<open>data.about\<close> and the \<open>details\<close> arrays of its \<open>data.requirements.systems\<close>. An
  array element removed by \<open>delete\<close> is a hole, \<open>None\<close>.
\<close>

record ('a, 'd) page =
  page_type :: string
  page_about :: 'a
  page_systems :: "'d option list list"

text \<open>The answer of \<open>getExtraInfo\<close>; \<open>None\<close> for \<open>about\<close> is the empty object.\<close>

record ('a, 'd) ExtraInfo =
  about :: "'a option"
  reqs :: "'d option list"

definition empty_ExtraInfo :: "('a, 'd) ExtraInfo" where
  "empty_ExtraInfo = \<lparr>about = None, reqs = []\<rparr>"

text \<open>
  \<open>slug.replace(/(\/.*)/, '')\<close>: the first slash and what follows it on its line are
  removed.
\<close>

definition strip_slug :: "string \<Rightarrow> string" where
  "strip_slug slug =
     takeWhile (\<lambda>x. x \<noteq> CHR ''/'') slug @
       dropWhile (\<lambda>x. x \<noteq> CHR 0x0A \<and> x \<noteq> CHR 0x0D) (dropWhile (\<lambda>x. x \<noteq> CHR ''/'') slug)"

definition graphql_query :: "string \<Rightarrow> string" where
  "graphql_query namespace =
     ''{Catalog{catalogOffers( namespace:'' @ [dquote] @ namespace @ [dquote] @
     ''){elements {productSlug}}}}''"

text \<open>
  \<open>getProductSlug\<close>: \<open>post\<close> is the catalogue's answer to a query, the \<open>productSlug\<close>
  of each element (\<open>None\<close> when the element has none), or the error of the request.
\<close>

definition getProductSlug ::
    "(string \<Rightarrow> failure + string option list) \<Rightarrow> string \<Rightarrow> world \<Rightarrow> failure + string" where
  "getProductSlug post namespace w =
     (case post (graphql_query namespace) of
        Inl e \<Rightarrow> Inl e
      | Inr elements \<Rightarrow>
          (case find (\<lambda>e. e \<noteq> None \<and> e \<noteq> Some []) elements of
             Some (Some slug) \<Rightarrow> Inr (strip_slug slug)
           | _ \<Rightarrow> Inr (appName w)))"

text \<open>\<open>delete details[0]\<close>: a hole in place of the first element, nothing on an empty array.\<close>

fun delete_first :: "'d option list \<Rightarrow> 'd option list" where
  "delete_first [] = []"
| "delete_first (x # xs) = None # xs"

text \<open>
  The body of the \<open>try\<close> (lines 120-131) on the pages of the answer; every read of a
  field of \<open>undefined\<close> raises inside the \<open>try\<close> and ends in the empty answer.
\<close>

definition extract_info :: "('a, 'd) page list \<Rightarrow> ('a, 'd) ExtraInfo" where
  "extract_info pages =
     (case pages of
        [] \<Rightarrow> empty_ExtraInfo
      | first # others \<Rightarrow>
          (case page_systems first of
             [] \<Rightarrow> empty_ExtraInfo
           | details # systems \<Rightarrow>
               (let pages' = first\<lparr>page_systems := delete_first details # systems\<rparr> # others
                in case find (\<lambda>e. page_type e = ''productHome'') pages' of
                     None \<Rightarrow> empty_ExtraInfo
                   | Some home_page \<Rightarrow>
                       (case page_systems home_page of
                          [] \<Rightarrow> empty_ExtraInfo
                        | details' # systems' \<Rightarrow>
                            \<lparr>about = Some (page_about home_page), reqs = details'\<rparr>))))"

definition epicUrl_of :: "constants \<Rightarrow> string \<Rightarrow> string" where
  "epicUrl_of c product =
     ''https://store-content.ak.epicgames.com/api/'' @
     (if language c = ''pt'' then ''pt-BR'' else language c) @
     ''/content/products/'' @ product"

text \<open>
  \<open>getExtraInfo\<close>: \<open>namespace\<close> is \<open>None\<close> for \<open>null\<close>; \<open>get\<close> is the store's answer
  to a URL. The result type of \<open>run\<close> is reused with the world unchanged.
\<close>

definition getExtraInfo ::
    "constants \<Rightarrow> (string \<Rightarrow> failure + string option list) \<Rightarrow>
     (string \<Rightarrow> failure + ('a, 'd) page list) \<Rightarrow> string option \<Rightarrow> world \<Rightarrow>
     ('a, 'd) ExtraInfo run" where
  "getExtraInfo c post get namespace w =
     (if \<not> online c then \<lparr>result = Inr empty_ExtraInfo, after = w, effects = [IsOnline]\<rparr>
      else
        (case (case namespace of
                 None \<Rightarrow> (Inr (appName w), [])
               | Some ns \<Rightarrow>
                   if ns = [] then (Inr (appName w), [])
                   else (getProductSlug post ns w,
                         [HttpPost ''https://www.epicgames.com/graphql'' (graphql_query ns)]))
         of
           (Inl e, posted) \<Rightarrow> \<lparr>result = Inl e, after = w, effects = IsOnline # posted\<rparr>
         | (Inr product, posted) \<Rightarrow>
             \<lparr>result = Inr (case get (epicUrl_of c product) of
                              Inl e \<Rightarrow> empty_ExtraInfo
                            | Inr pages \<Rightarrow> extract_info pages),
              after = w,
              effects = IsOnline # posted @ [HttpGet (epicUrl_of c product)]\<rparr>))"

section \<open>The tool manager's \<open>installToolVersion\<close> handler (ipc_handler.ts, lines 14-29)\<close>

text \<open>
  The cancellation registry (spec 4.1): a process-wide table from a job key to the
  cancellation handle of the one job that owns the key.
\<close>

datatype handle = Handle string

datatype registry_error = AlreadyRegistered

type_synonym registry = "string \<rightharpoonup> handle"

text \<open>
  Modelled from the spec: \<open>createAbortController\<close> (utils/aborthandler) is missing from
  the repository's files at hand. Spec 4.1: \<open>register(key)\<close> gives the handle or
  fails with \<open>AlreadyRegistered\<close> when the key has one.
\<close>

definition createAbortController :: "string \<Rightarrow> registry \<Rightarrow> registry_error + handle \<times> registry" where
  "createAbortController key reg =
     (case reg key of
        Some h \<Rightarrow> Inl AlreadyRegistered
      | None \<Rightarrow> Inr (Handle key, reg(key \<mapsto> Handle key)))"

text \<open>
  Modelled from the spec: \<open>deleteAbortController\<close> (utils/aborthandler) is missing as
  well. Spec 4.1: \<open>unregister(key)\<close> removes the handle of the key.
\<close>

definition deleteAbortController :: "string \<Rightarrow> registry \<Rightarrow> registry" where
  "deleteAbortController key reg = reg(key := None)"

text \<open>The states and results of an installation of a tool version.\<close>

datatype State = Idle | Downloading | Unzipping

datatype tool_result = Success | Error | Abort

datatype 'x handler_failure = Registry registry_error | InstallThrew 'x

text \<open>What the handler sends to the window: the channel and the payload.\<close>

datatype 'p message = Send string State "'p option"

text \<open>
  One call of the handler: its reply (\<open>Inl\<close> when it throws), the registry as it is
  while \<open>installToolVersion\<close> runs (the registry the handler found, when it threw
  before the call), the registry when the handler has settled, and what it sent.
\<close>

record ('p, 'x) handled =
  reply :: "'x handler_failure + tool_result"
  registry_during :: registry
  registry_after :: registry
  sent :: "'p message list"

text \<open>
  \<open>installToolVersion\<close> (toolmanager/utils) is missing too and is a
  parameter: given the version and the handle's signal it reports progress through
  \<open>onProgress\<close> and settles with a result, or throws. The handler registers the handle
  while it evaluates the arguments of the call, relays each progress report on the
  version's channel, and removes the handle after the awaited call has settled with a
  result.
\<close>

definition installToolVersion_handler ::
    "(string \<Rightarrow> handle \<Rightarrow> (State \<times> 'p option) list \<times> ('x + tool_result)) \<Rightarrow>
     string \<Rightarrow> registry \<Rightarrow> ('p, 'x) handled" where
  "installToolVersion_handler installToolVersion version reg =
     (case createAbortController version reg of
        Inl e \<Rightarrow>
          \<lparr>reply = Inl (Registry e), registry_during = reg, registry_after = reg, sent = []\<rparr>
      | Inr (h, reg1) \<Rightarrow>
          (let (reports, settled) = installToolVersion version h;
               relayed = map (\<lambda>(state, progress).
                                 Send (''progressOfToolManager'' @ version) state progress)
                             reports
           in case settled of
                Inl x \<Rightarrow>
                  \<lparr>reply = Inl (InstallThrew x), registry_during = reg1,
                   registry_after = reg1, sent = relayed\<rparr>
              | Inr r \<Rightarrow>
                  \<lparr>reply = Inr r, registry_during = reg1,
                   registry_after = deleteAbortController version reg1, sent = relayed\<rparr>))"

text \<open>An installation that reports one download step and settles with the given result.\<close>

definition example_installToolVersion ::
    "tool_result \<Rightarrow> string \<Rightarrow> handle \<Rightarrow> (State \<times> nat option) list \<times> (unit + tool_result)" where
  "example_installToolVersion r version h = ([(Downloading, Some 50)], Inr r)"

section \<open>The progress line of a tool version (ToolItem/index.tsx, lines 196-217)\<close>

text \<open>
  JavaScript numbers are doubles. A number is modelled by the real it denotes, and each
  arithmetic operation rounds its exact result with \<open>fl\<close>, the rounding of the
  arithmetic, which is a parameter. Line 215 computes \<open>(percentage / 100) * downsize\<close>:
  a division and a multiplication, each rounded.
\<close>

definition bytes_progress :: "(real \<Rightarrow> real) \<Rightarrow> real \<Rightarrow> real \<Rightarrow> real" where
  "bytes_progress fl percentage downsize = fl (fl (percentage / 100) * downsize)"

text \<open>
  \<open>bytesAsString\<close>, line 215. The formatter \<open>size\<close> comes from frontend/helpers,
  a module of its own, and is a parameter.
\<close>

definition bytesAsString ::
    "(real \<Rightarrow> string) \<Rightarrow> (real \<Rightarrow> real) \<Rightarrow> real \<Rightarrow> real \<Rightarrow> string" where
  "bytesAsString size_str fl percentage downsize =
     ''['' @ size_str (bytes_progress fl percentage downsize) @ '']''"

text \<open>A rounding that is off by one part in 1024 everywhere, and a formatter.\<close>

definition example_rounding :: "real \<Rightarrow> real" where
  "example_rounding x = x * (1 + 1 / 1024)"

definition example_size :: "real \<Rightarrow> string" where
  "example_size x = (if x < 1024 then ''small'' else ''large'')"

subsection \<open>Concrete inputs\<close>

text \<open>
  A printing of finite numbers for the concrete inputs: on the integers from 0 to
  \<open>2\<^sup>5\<^sup>3 - 1\<close> the decimal digits, as JavaScript prints them; no concrete input
  uses it on another number.
\<close>

definition example_number_text :: "real \<Rightarrow> string" where
  "example_number_text x =
     (if 0 \<le> x \<and> x < 9007199254740992 \<and> x = of_int \<lfloor>x\<rfloor> then show_nat (nat \<lfloor>x\<rfloor>)
      else [])"

definition example_constants :: constants where
  "example_constants =
     \<lparr>legendaryBin = ''legendary'', heroicGamesConfigPath = ''/cfg/'', home = ''/home/u'',
      isWindows = False, platform = ''linux'', maxWorkers = Num 4,
      number_text = example_number_text, discordRPC = False,
      online = False, language = ''en'', title = ''A Game''\<rparr>"


definition example_world :: world where
  "example_world =
     \<lparr>appName = ''Game'', status = Done, installed = (\<lambda>name. False),
      install_path = (\<lambda>name. ''/games/Game'')\<rparr>"

text \<open>An environment in which every command exits with the given code and prints nothing.\<close>

definition exits_with :: "int \<Rightarrow> string \<Rightarrow> child_exit" where
  "exits_with n command = \<lparr>outcome = ExitCode n, stdout = [], stderr = []\<rparr>"


section \<open>Progress extraction: results\<close>

lemma split_chr_not_Nil: "split_chr c s \<noteq> []"
  by (induction s) (auto split: list.splits)

lemma split_chr_single: "c \<notin> set s \<Longrightarrow> split_chr c s = [s]"
  by (induction s) auto

lemma split_chr_length: "length (split_chr c s) = Suc (length (filter (\<lambda>x. x = c) s))"
  by (induction s) (auto split: list.splits simp: split_chr_not_Nil)

text \<open>
  The listener raises exactly on the chunks of a matching request that hold no newline:
  \<open>split('\n')[1]\<close> is \<open>undefined\<close> there and \<open>.split(' ')\<close> is called on it.
\<close>

lemma stderr_listener_raises_iff:
  "raised (stderr_listener this_name requested data p) = Some TypeError
     \<longleftrightarrow> requested = this_name \<and> CHR 0x0A \<notin> set data"
proof -
  have len: "1 < length (split_chr (CHR 0x0A) data) \<longleftrightarrow> CHR 0x0A \<in> set data"
    by (simp add: split_chr_length filter_empty_conv)
  have pos: "0 < length (split_chr (CHR 0x0A) data)"
    by (simp add: split_chr_length)
  show ?thesis
    using len pos
    by (auto simp: stderr_listener_def nth_opt_def Let_def split: option.splits if_splits)
qed

lemma verifying_listener_raises_iff:
  "raised (verifying_listener data p) = Some TypeError
     \<longleftrightarrow> length (filter (\<lambda>x. x = CHR '' '') data) < 3"
proof -
  have "nth_opt (split_chr CHR '')'' field) 0 \<noteq> None" for field
    using split_chr_not_Nil [of "CHR '')''" field] by (simp add: nth_opt_def)
  then show ?thesis
    by (auto simp: verifying_listener_def nth_opt_def Let_def split_chr_length
          split: option.splits)
qed

text \<open>
  C1. The claim: no chunk fed to the progress extraction raises an exception. The code
  at a chunk without a newline: the \<open>stderr\<close> listener raises a \<open>TypeError\<close> and leaves
  the progress object as it was. The \<open>stdout\<close> listener of the verification phase
  raises on a chunk of two fields, after it has written \<open>bytes\<close>.
\<close>

theorem progress_extraction_raises:
  "stderr_listener ''Game'' ''Game'' ''abc'' initial_progress
     = \<lparr>progress = initial_progress, stdout_listener = False, raised = Some TypeError\<rparr>
   \<and> verifying_listener ''abc def'' initial_progress
     = \<lparr>progress = initial_progress\<lparr>bytes := ''undefinedMiB''\<rparr>, stdout_listener = False,
        raised = Some TypeError\<rparr>"
  by (simp add: stderr_listener_def verifying_listener_def nth_opt_def template_def)

section \<open>\<open>moveInstall\<close>: results\<close>

lemma amended_path_last:
  "amended_path p ip = p @ ''/'' @ last (split_chr CHR ''/'' ip)"
proof -
  have "split_chr CHR ''/'' ip \<noteq> []" by (rule split_chr_not_Nil)
  then have "slice_from_end 1 (split_chr CHR ''/'' ip) = [last (split_chr CHR ''/'' ip)]"
    by (cases "split_chr CHR ''/'' ip" rule: rev_cases) (simp_all add: slice_from_end_def)
  then show ?thesis by (simp add: amended_path_def nth_opt_def template_def)
qed

lemma execAsync_cases:
  "execAsync run command =
     (if outcome (run command) = ExitCode 0
      then Inr (stdout (run command), stderr (run command))
      else Inl (ExecError (outcome (run command)) (stdout (run command)) (stderr (run command))))"
  by (simp add: execAsync_def Let_def)

text \<open>
  C5. The destination of the move is the given parent directory, a slash and the last
  segment of the current install path. The persisted install-path record is written
  after the move command, and only when that command exited with code zero; when it
  failed, the record is what it was and no write of it is among the effects.
\<close>

theorem moveInstall_commits_path_after_move:
  "let name = appName w;
       old = install_path w name;
       dest = p @ ''/'' @ last (split_chr CHR ''/'' old);
       cmd = move_command old dest;
       r = run cmd;
       M = moveInstall run p w
   in install_path (after M) =
        (if outcome r = ExitCode 0 then (install_path w)(name := dest) else install_path w)
      \<and> effects M =
        (if outcome r = ExitCode 0
         then [Exec cmd, ChangeGameInstallPath name dest, AddDesktopShortcut]
         else [Exec cmd, LogError (ExecError (outcome r) (stdout r) (stderr r)),
               AddDesktopShortcut])"
  by (simp add: moveInstall_def Let_def execAsync_cases amended_path_last
        changeGameInstallPath_def)

theorem moveInstall_commits_path_after_move_witness:
  "install_path (after (moveInstall (exits_with 1) ''/mnt/new'' example_world)) ''Game''
     = ''/games/Game''
   \<and> install_path (after (moveInstall (exits_with 0) ''/mnt/new'' example_world)) ''Game''
     = ''/mnt/new/Game''
   \<and> effects (moveInstall (exits_with 0) ''/mnt/new'' example_world)
     = [Exec (move_command ''/games/Game'' ''/mnt/new/Game''),
        ChangeGameInstallPath ''Game'' ''/mnt/new/Game'', AddDesktopShortcut]"
  using moveInstall_commits_path_after_move
          [where w = example_world and p = "''/mnt/new''" and run = "exits_with 1"]
        moveInstall_commits_path_after_move
          [where w = example_world and p = "''/mnt/new''" and run = "exits_with 0"]
  by (simp add: Let_def example_world_def exits_with_def)

text \<open>
  C10. Whatever the move command does, \<open>moveInstall\<close> resolves with the amended
  destination path and leaves the status at rest; a failed move is logged and nothing
  else, so two calls that differ only in the fate of the move command have the same
  return value and the same final status.
\<close>

theorem moveInstall_swallows_failure:
  "result (moveInstall run p w)
     = Inr (p @ ''/'' @ last (split_chr CHR ''/'' (install_path w (appName w))))
   \<and> status (after (moveInstall run p w)) = Done
   \<and> result (moveInstall run p w) = result (moveInstall run' p w)
   \<and> status (after (moveInstall run p w)) = status (after (moveInstall run' p w))
   \<and> (outcome (run (move_command (install_path w (appName w))
          (p @ ''/'' @ last (split_chr CHR ''/'' (install_path w (appName w))))))
        \<noteq> ExitCode 0
      \<longrightarrow> (\<exists>e. LogError e \<in> set (effects (moveInstall run p w))))"
  by (simp add: moveInstall_def Let_def execAsync_cases amended_path_last
        changeGameInstallPath_def)

theorem moveInstall_swallows_failure_witness:
  "outcome (exits_with 1 (move_command ''/games/Game'' ''/mnt/new/Game'')) \<noteq> ExitCode 0
   \<and> result (moveInstall (exits_with 1) ''/mnt/new'' example_world) = Inr ''/mnt/new/Game''
   \<and> status (after (moveInstall (exits_with 1) ''/mnt/new'' example_world)) = Done
   \<and> (\<exists>e. LogError e \<in> set (effects (moveInstall (exits_with 1) ''/mnt/new'' example_world)))"
  using moveInstall_swallows_failure
          [where run = "exits_with 1" and p = "''/mnt/new''" and w = example_world
             and run' = "exits_with 0"]
  by (simp add: example_world_def exits_with_def)


section \<open>\<open>install\<close> and \<open>uninstall\<close>: results\<close>






text \<open>
  C4, as stated: the removal of the desktop integration is triggered whatever the exit
  code. Here the uninstall command exits with code 1 and the removal is not among the
  effects: the promise is rejected and the status stays \<open>uninstalling\<close>.
\<close>

theorem uninstall_failure_skips_shortcut_removal:
  "effects (uninstall example_constants (exits_with 1) example_world)
     = [LogInfo [''Uninstalling Game with:'', ''legendary uninstall Game -y''],
        InstallState ''Game'' False,
        Exec ''legendary uninstall Game -y'']
   \<and> result (uninstall example_constants (exits_with 1) example_world)
     = Inl (ExecError (ExitCode 1) [] [])
   \<and> status (after (uninstall example_constants (exits_with 1) example_world)) = Uninstalling"
  by (simp add: uninstall_def Let_def execAsync_cases exits_with_def example_world_def
        example_constants_def uninstall_command_def installState_def)

text \<open>
  C4, amended. \<open>uninstall\<close> marks the installed-state false before it runs the tool and
  never marks it true, so it is false afterwards whatever the exit code; the removal of
  the desktop integration is started after the tool, and exactly when the tool exited
  with code zero.
\<close>

theorem uninstall_marks_false_first:
  "let name = appName w;
       cmd = uninstall_command c name;
       U = uninstall c run w
   in \<not> installed (after U) name
      \<and> effects U
          = [LogInfo [''Uninstalling '' @ name @ '' with:'', cmd],
             InstallState name False, Exec cmd]
            @ (if outcome (run cmd) = ExitCode 0 then [RemoveDesktopShortcut] else [])"
  by (simp add: uninstall_def Let_def execAsync_cases installState_def)


section \<open>The worker-count flag: results\<close>

lemma split_chr_append: "split_chr c (a @ c # b) = split_chr c a @ split_chr c b"
  by (induction a) (auto split: list.splits simp: split_chr_not_Nil)

lemma update_command_words:
  "update_command c name
     = [''update''] @ split_chr CHR '' '' name @
       (if maxWorkers c = Num 0 then []
        else ''--max-workers'' #
               split_chr CHR '' '' (template_number (number_text c) (maxWorkers c))) @
       [''-y'']"
proof (cases "maxWorkers c = Num 0")
  case True
  have "update_command c name
          = split_chr CHR '' '' (''update'' @ CHR '' '' # (name @ CHR '' '' # ''-y''))"
    using True by (simp add: update_command_def update_workers_def strict_equals_zero_def)
  also have "\<dots> = split_chr CHR '' '' ''update'' @
                  split_chr CHR '' '' (name @ CHR '' '' # ''-y'')"
    by (rule split_chr_append)
  also have "split_chr CHR '' '' (name @ CHR '' '' # ''-y'')
               = split_chr CHR '' '' name @ split_chr CHR '' '' ''-y''"
    by (rule split_chr_append)
  finally show ?thesis using True by simp
next
  case False
  let ?n = "template_number (number_text c) (maxWorkers c)"
  have "update_command c name
          = split_chr CHR '' '' (''update'' @ CHR '' '' #
              (name @ CHR '' '' # (''--max-workers'' @ CHR '' '' # (?n @ CHR '' '' # ''-y''))))"
    using False by (simp add: update_command_def update_workers_def strict_equals_zero_def)
  also have "\<dots> = split_chr CHR '' '' ''update'' @
                  split_chr CHR '' '' (name @ CHR '' '' #
                    (''--max-workers'' @ CHR '' '' # (?n @ CHR '' '' # ''-y'')))"
    by (rule split_chr_append)
  also have "split_chr CHR '' '' (name @ CHR '' '' #
                    (''--max-workers'' @ CHR '' '' # (?n @ CHR '' '' # ''-y'')))
               = split_chr CHR '' '' name @
                   split_chr CHR '' '' (''--max-workers'' @ CHR '' '' # (?n @ CHR '' '' # ''-y''))"
    by (rule split_chr_append)
  also have "split_chr CHR '' '' (''--max-workers'' @ CHR '' '' # (?n @ CHR '' '' # ''-y''))
               = split_chr CHR '' '' ''--max-workers'' @ split_chr CHR '' '' (?n @ CHR '' '' # ''-y'')"
    by (rule split_chr_append)
  also have "split_chr CHR '' '' (?n @ CHR '' '' # ''-y'')
               = split_chr CHR '' '' ?n @ split_chr CHR '' '' ''-y''"
    by (rule split_chr_append)
  finally show ?thesis using False by simp
qed

lemma truthy_cases: "truthy v \<longleftrightarrow> \<not> (v = Num 0 \<or> v = NaN \<or> v = Undefined)"
  by (cases v) (simp_all add: truthy_def)

text \<open>
  C7, as stated: with \<open>maxWorkers\<close> zero the flag is omitted, and otherwise it is
  included with the configured value, in \<open>install\<close>, \<open>update\<close> and \<open>repair\<close> alike.
  Here \<open>maxWorkers\<close> is \<open>NaN\<close>, which is not zero: \<open>repair\<close> omits the flag, while
  \<open>install\<close> passes it.
\<close>

theorem repair_omits_flag_for_NaN:
  "maxWorkers (example_constants\<lparr>maxWorkers := NaN\<rparr>) \<noteq> Num 0
   \<and> repair_command (example_constants\<lparr>maxWorkers := NaN\<rparr>) ''Game''
      = ''legendary repair Game  -y |& tee '' @ [dquote] @ ''/cfg/Game.log'' @ [dquote]
   \<and> install_command (example_constants\<lparr>maxWorkers := NaN\<rparr>) ''Game'' ''/games''
      = ''legendary install Game --base-path /games --max-workers NaN -y |& tee '' @
        [dquote] @ ''/cfg/Game.log'' @ [dquote]"
  by (simp add: example_constants_def repair_command_def repair_workers_def truthy_def
        install_command_def install_workers_def strict_equals_zero_def template_number_def
        writeLog_of_def logPath_of_def)

text \<open>
  C7, amended. \<open>install\<close> and \<open>update\<close> omit the \<open>--max-workers\<close> flag exactly when
  \<open>maxWorkers\<close> is zero; \<open>repair\<close> omits it exactly when \<open>maxWorkers\<close> is zero, \<open>NaN\<close>
  or missing. So with \<open>maxWorkers\<close> zero none of them passes the flag, and with any
  other number except \<open>NaN\<close> all three pass it, followed by the value as the template
  literal prints it. The arguments of \<open>update\<close> are the words of its command line, so
  there the flag is an argument of its own and the words of the value follow it.
\<close>

theorem max_workers_flag:
  "install_command c name path
     = legendaryBin c @ '' install '' @ name @ '' --base-path '' @ path @ '' '' @
       (if maxWorkers c = Num 0 then []
        else ''--max-workers '' @ template_number (number_text c) (maxWorkers c)) @
       '' -y '' @ writeLog_of c name
   \<and> update_command c name
     = [''update''] @ split_chr CHR '' '' name @
       (if maxWorkers c = Num 0 then []
        else ''--max-workers'' #
               split_chr CHR '' '' (template_number (number_text c) (maxWorkers c))) @
       [''-y'']
   \<and> repair_command c name
     = legendaryBin c @ '' repair '' @ name @ '' '' @
       (if maxWorkers c = Num 0 \<or> maxWorkers c = NaN \<or> maxWorkers c = Undefined then []
        else ''--max-workers '' @ template_number (number_text c) (maxWorkers c)) @
       '' -y '' @ writeLog_of c name"
  using update_command_words [of c name]
  by (simp add: install_command_def repair_command_def install_workers_def
        repair_workers_def strict_equals_zero_def truthy_cases)

theorem max_workers_flag_witness:
  "update_command example_constants ''Game'' = [''update'', ''Game'', ''--max-workers'', ''4'', ''-y'']
   \<and> update_command (example_constants\<lparr>maxWorkers := Num 0\<rparr>) ''Game'' = [''update'', ''Game'', ''-y'']
   \<and> update_command (example_constants\<lparr>maxWorkers := Undefined\<rparr>) ''Game''
      = [''update'', ''Game'', ''--max-workers'', ''undefined'', ''-y'']
   \<and> install_command (example_constants\<lparr>maxWorkers := Num 0\<rparr>) ''Game'' ''/games''
      = ''legendary install Game --base-path /games  -y |& tee '' @ [dquote] @ ''/cfg/Game.log'' @ [dquote]
   \<and> repair_command example_constants ''Game''
      = ''legendary repair Game --max-workers 4 -y |& tee '' @ [dquote] @ ''/cfg/Game.log'' @ [dquote]
   \<and> repair_command (example_constants\<lparr>maxWorkers := Undefined\<rparr>) ''Game''
      = ''legendary repair Game  -y |& tee '' @ [dquote] @ ''/cfg/Game.log'' @ [dquote]"
  using max_workers_flag [of example_constants "''Game''" "''/games''"]
        max_workers_flag [of "example_constants\<lparr>maxWorkers := Num 0\<rparr>" "''Game''" "''/games''"]
        max_workers_flag [of "example_constants\<lparr>maxWorkers := Undefined\<rparr>" "''Game''" "''/games''"]
  by (simp add: example_constants_def example_number_text_def template_number_def
        show_nat.simps digit_char_def writeLog_of_def logPath_of_def)

section \<open>\<open>launch\<close> and the status after the process has exited: results\<close>

lemma launch_status_cases:
  "status (after (launch c s existsSync run w)) = Playing
   \<or> status (after (launch c s existsSync run w)) = Launching"
  by (simp add: launch_def Let_def execAsync_cases)

lemma launch_never_at_rest: "status (after (launch c s existsSync run w)) \<noteq> Done"
  by (simp add: launch_def Let_def execAsync_cases)

lemma update_status_stays: "status (after (update c w)) = Updating"
  by (simp add: update_def)

text \<open>
  C2. The claim: once the subprocess of an operation has exited, the status is back at
  rest, and \<open>launch\<close> shows \<open>Running\<close> while the game is alive. The code on Linux with
  the default Wine settings and a game command that exits with code zero: \<open>launch\<close>
  resolves with the output of the finished command and the status is \<open>playing\<close>,
  written after the command has exited and not written again.
\<close>

theorem launch_leaves_status_playing:
  "outcome (exits_with 0 (launch_command example_constants example_settings (exits_with 0) ''Game''))
     = ExitCode 0
   \<and> result (launch example_constants example_settings every_path_exists (exits_with 0)
               example_world) = Inr ([], [])
   \<and> status (after (launch example_constants example_settings every_path_exists (exits_with 0)
                      example_world)) = Playing"
  by (simp add: launch_def Let_def execAsync_cases exits_with_def example_world_def
        example_constants_def example_settings_def isProton_of_def)


section \<open>Network availability: results\<close>

text \<open>
  C8, as stated: every operation that depends on the remote side checks the network
  first and does nothing when it is unavailable. Here the network is unavailable and
  \<open>update\<close> spawns the tool all the same.
\<close>

theorem update_offline_still_spawns:
  "\<not> online example_constants
   \<and> effects (update example_constants example_world)
     = [Spawn ''legendary'' [''update'', ''Game'', ''--max-workers'', ''4'', ''-y''],
        HandleRequestUpdateProgress, LogInfo [''child exiting'']]
   \<and> result (update example_constants example_world) = Inr ''game updated''"
  using update_command_words [of example_constants "''Game''"]
  by (simp add: update_def example_constants_def example_world_def example_number_text_def
        template_number_def show_nat.simps digit_char_def)

lemma commands_ignore_online:
  "install_command (c\<lparr>online := b\<rparr>) name path = install_command c name path"
  "repair_command (c\<lparr>online := b\<rparr>) name = repair_command c name"
  "update_command (c\<lparr>online := b\<rparr>) name = update_command c name"
  "logPath_of (c\<lparr>online := b\<rparr>) name = logPath_of c name"
  by (simp_all add: install_command_def repair_command_def update_command_def logPath_of_def
        writeLog_of_def)

text \<open>
  C8, amended. \<open>getExtraInfo\<close> checks the network before anything else and, when it is
  unavailable, resolves with the empty answer without any request; when it is
  available and no namespace is given, the store is asked. \<open>install\<close>, \<open>update\<close> and
  \<open>repair\<close> do not check: they do the same whether the network is available or not.
\<close>

theorem getExtraInfo_offline_short_circuit:
  "getExtraInfo (c\<lparr>online := False\<rparr>) post get namespace w
     = \<lparr>result = Inr empty_ExtraInfo, after = w, effects = [IsOnline]\<rparr>
   \<and> effects (getExtraInfo (c\<lparr>online := True\<rparr>) post get None w)
     = [IsOnline, HttpGet (epicUrl_of c (appName w))]
   \<and> update (c\<lparr>online := b\<rparr>) w = update c w
   \<and> install (c\<lparr>online := b\<rparr>) run errorHandler path w = install c run errorHandler path w
   \<and> repair (c\<lparr>online := b\<rparr>) run w = repair c run w"
  by (simp add: getExtraInfo_def epicUrl_of_def update_def install_def repair_def
        commands_ignore_online)

section \<open>The \<open>installToolVersion\<close> handler: results\<close>

lemma handler_reply_removed:
  "reply (installToolVersion_handler installToolVersion version reg) = Inr r \<Longrightarrow>
   registry_during (installToolVersion_handler installToolVersion version reg) version
     = Some (Handle version)
   \<and> registry_after (installToolVersion_handler installToolVersion version reg) version = None"
  by (auto simp: installToolVersion_handler_def createAbortController_def
        deleteAbortController_def Let_def split: option.splits sum.splits prod.splits)

text \<open>
  C6. When the version has no handle yet and the installation settles with a result
  (success, error or abort), the handler registers a handle for the version before the
  installation runs, so that the registry holds it while the installation runs, and
  removes it before it replies with that result: the registry it leaves is the one of
  the installation with the version's handle taken out, and the handles of other keys
  are as they were.
\<close>

theorem installToolVersion_handler_removes_handle:
  assumes "reg version = None"
    and "snd (installToolVersion version (Handle version)) = Inr r"
  shows "reply (installToolVersion_handler installToolVersion version reg) = Inr r
         \<and> registry_during (installToolVersion_handler installToolVersion version reg)
             = reg(version \<mapsto> Handle version)
         \<and> registry_after (installToolVersion_handler installToolVersion version reg)
             = (registry_during (installToolVersion_handler installToolVersion version reg))
                 (version := None)
         \<and> registry_during (installToolVersion_handler installToolVersion version reg) version
             = Some (Handle version)
         \<and> registry_after (installToolVersion_handler installToolVersion version reg) version
             = None"
proof -
  obtain reports where settled: "installToolVersion version (Handle version) = (reports, Inr r)"
    using assms(2) by (cases "installToolVersion version (Handle version)") simp
  show ?thesis
    using assms(1) settled
    by (simp add: installToolVersion_handler_def createAbortController_def
          deleteAbortController_def)
qed

theorem installToolVersion_handler_removes_handle_witness:
  "Map.empty ''Wine-GE-7'' = (None :: handle option)
   \<and> snd (example_installToolVersion Abort ''Wine-GE-7'' (Handle ''Wine-GE-7'')) = Inr Abort
   \<and> reply (installToolVersion_handler (example_installToolVersion Abort) ''Wine-GE-7'' Map.empty)
       = Inr Abort
   \<and> registry_during
       (installToolVersion_handler (example_installToolVersion Abort) ''Wine-GE-7'' Map.empty)
       ''Wine-GE-7'' = Some (Handle ''Wine-GE-7'')
   \<and> registry_after
       (installToolVersion_handler (example_installToolVersion Abort) ''Wine-GE-7'' Map.empty)
       ''Wine-GE-7'' = None"
  using installToolVersion_handler_removes_handle
          [where reg = Map.empty and version = "''Wine-GE-7''" and r = Abort
             and installToolVersion = "example_installToolVersion Abort"]
  by (simp add: example_installToolVersion_def)

section \<open>The byte progress of a download: results\<close>

lemma rounding_twice:
  fixes fl :: "real \<Rightarrow> real"
  assumes first: "\<bar>fl q - q\<bar> \<le> u * \<bar>q\<bar>"
    and outer: "\<bar>fl (fl q * d) - fl q * d\<bar> \<le> u * \<bar>fl q * d\<bar>"
    and u: "0 \<le> u"
  shows "\<bar>fl (fl q * d) - q * d\<bar> \<le> (2 * u + u\<^sup>2) * \<bar>q * d\<bar>"
proof -
  have "\<bar>fl q\<bar> \<le> \<bar>q\<bar> + \<bar>fl q - q\<bar>" by linarith
  then have size_a: "\<bar>fl q\<bar> \<le> (1 + u) * \<bar>q\<bar>" using first by (simp add: algebra_simps)
  have "u * \<bar>fl q * d\<bar> = u * \<bar>fl q\<bar> * \<bar>d\<bar>" by (simp add: abs_mult)
  also have "\<dots> \<le> u * ((1 + u) * \<bar>q\<bar>) * \<bar>d\<bar>"
    using size_a u by (intro mult_right_mono mult_left_mono) simp_all
  finally have second: "\<bar>fl (fl q * d) - fl q * d\<bar> \<le> u * ((1 + u) * \<bar>q\<bar>) * \<bar>d\<bar>"
    using outer by linarith
  have "\<bar>fl q * d - q * d\<bar> = \<bar>fl q - q\<bar> * \<bar>d\<bar>"
    by (simp add: abs_mult [symmetric] left_diff_distrib)
  also have "\<dots> \<le> u * \<bar>q\<bar> * \<bar>d\<bar>"
    using first by (intro mult_right_mono) simp_all
  finally have third: "\<bar>fl q * d - q * d\<bar> \<le> u * \<bar>q\<bar> * \<bar>d\<bar>" .
  have "\<bar>fl (fl q * d) - q * d\<bar> \<le> \<bar>fl (fl q * d) - fl q * d\<bar> + \<bar>fl q * d - q * d\<bar>"
    by linarith
  also have "\<dots> \<le> u * ((1 + u) * \<bar>q\<bar>) * \<bar>d\<bar> + u * \<bar>q\<bar> * \<bar>d\<bar>"
    using second third by linarith
  also have "\<dots> = (2 * u + u\<^sup>2) * \<bar>q * d\<bar>"
    by (simp add: abs_mult algebra_simps power2_eq_square)
  finally show ?thesis .
qed

text \<open>
  C9. The byte figure of the progress line is the formatter applied to the computed
  product, and the computed product is the exact \<open>percentage / 100 * downsize\<close> up to
  the rounding of the two operations: when each of them has a relative error of at
  most \<open>u\<close>, the computed product has a relative error of at most \<open>2 u + u\<^sup>2\<close>.
\<close>

theorem bytes_progress_within_rounding:
  fixes fl :: "real \<Rightarrow> real"
  assumes "\<bar>fl (percentage / 100) - percentage / 100\<bar> \<le> u * \<bar>percentage / 100\<bar>"
    and "\<bar>fl (fl (percentage / 100) * downsize) - fl (percentage / 100) * downsize\<bar>
           \<le> u * \<bar>fl (percentage / 100) * downsize\<bar>"
    and "0 \<le> u"
  shows "bytesAsString size_str fl percentage downsize
           = ''['' @ size_str (bytes_progress fl percentage downsize) @ '']''
         \<and> \<bar>bytes_progress fl percentage downsize - percentage / 100 * downsize\<bar>
             \<le> (2 * u + u\<^sup>2) * \<bar>percentage / 100 * downsize\<bar>"
  using rounding_twice [of fl "percentage / 100" u downsize] assms
  by (simp add: bytesAsString_def bytes_progress_def)

theorem bytes_progress_within_rounding_witness:
  "\<bar>example_rounding (50 / 100) - 50 / 100\<bar> \<le> 1 / 1024 * \<bar>50 / 100 :: real\<bar>
   \<and> \<bar>example_rounding (example_rounding (50 / 100) * 1000) - example_rounding (50 / 100) * 1000\<bar>
       \<le> 1 / 1024 * \<bar>example_rounding (50 / 100) * 1000\<bar>
   \<and> bytesAsString example_size example_rounding 50 1000 = ''[small]''
   \<and> \<bar>bytes_progress example_rounding 50 1000 - 50 / 100 * 1000\<bar>
       \<le> (2 * (1 / 1024) + (1 / 1024)\<^sup>2) * \<bar>50 / 100 * 1000 :: real\<bar>"
proof -
  have first: "\<bar>example_rounding (50 / 100) - 50 / 100\<bar> \<le> 1 / 1024 * \<bar>50 / 100 :: real\<bar>"
    by (simp add: example_rounding_def)
  have outer:
    "\<bar>example_rounding (example_rounding (50 / 100) * 1000) - example_rounding (50 / 100) * 1000\<bar>
       \<le> 1 / 1024 * \<bar>example_rounding (50 / 100) * 1000\<bar>"
    by (simp add: example_rounding_def)
  have u: "(0::real) \<le> 1 / 1024" by simp
  have small: "bytes_progress example_rounding 50 1000 < 1024"
    by (simp add: bytes_progress_def example_rounding_def)
  show ?thesis
    using first outer small
      bytes_progress_within_rounding [OF first outer u, of example_size]
    by (simp add: example_size_def)
qed


end
